theory Spec2Isabelle
  imports Complex_Main
begin

section \<open>AutoFlip crop planning and temporal smoothing\<close>

text \<open>
  A shallow embedding of \<^verbatim>\<open>src/server/services/autoflip-mediapipe.py\<close>: the crop
  planner \<^verbatim>\<open>calculate_autoflip_crop\<close>, the temporal smoother
  \<^verbatim>\<open>smooth_crop_transitions\<close>, the aggregation at the end of
  \<^verbatim>\<open>detect_salient_regions\<close>, the driver \<^verbatim>\<open>process_video_autoflip\<close> and
  \<^verbatim>\<open>main\<close>.

  Numbers. A Python \<^verbatim>\<open>int\<close> is an \<^typ>\<open>int\<close>. A Python \<^verbatim>\<open>float\<close> is modelled by a
  rational number and float arithmetic by exact arithmetic: rounding error of the binary
  format, infinities and NaN are outside the model. \<^verbatim>\<open>int(f)\<close> of a float truncates
  towards zero (\<open>py_int\<close>), \<^verbatim>\<open>//\<close> on integers is the flooring \<open>div\<close>, and \<^verbatim>\<open>a / b\<close>
  raises \<^verbatim>\<open>ZeroDivisionError\<close> for a zero divisor, which the model returns as \<open>Inl\<close>.

  Dictionaries with a fixed set of keys are records. A record field is a global constant,
  so the keys of the crop dictionary carry the prefix \<open>crop_\<close> and those of a smoothed
  entry the prefix \<open>sc_\<close>; the optional keys \<^verbatim>\<open>center_x\<close>, \<^verbatim>\<open>center_y\<close> and
  \<^verbatim>\<open>salient_bbox\<close>, which only the salient branch of the planner adds, are options.
\<close>

subsection \<open>Data model\<close>

datatype error = ZeroDivisionError

type_synonym pyfloat = rat

text \<open>A normalised box \<^verbatim>\<open>[x, y, w, h]\<close> and a pixel box \<^verbatim>\<open>[x, y, w, h]\<close>.\<close>

type_synonym nbox = "pyfloat \<times> pyfloat \<times> pyfloat \<times> pyfloat"
type_synonym pbox = "int \<times> int \<times> int \<times> int"

text \<open>One entry of \<^verbatim>\<open>salient_regions['faces']\<close>, \<^verbatim>\<open>['poses']\<close> or \<^verbatim>\<open>['hands']\<close>.\<close>

record region =
  bbox :: pbox
  confidence :: pyfloat
  normalized_bbox :: nbox

record overall =
  normalized :: nbox
  absolute :: pbox

text \<open>The dictionary \<^verbatim>\<open>salient_regions\<close>; \<^verbatim>\<open>overall_bbox\<close> is \<^verbatim>\<open>None\<close> or a dictionary.\<close>

record salience =
  faces :: "region list"
  poses :: "region list"
  hands :: "region list"
  overall_bbox :: "overall option"
  sal_confidence :: pyfloat

datatype method_tag = center_crop | autoflip_salient | center_crop_fallback | interpolated

text \<open>The dictionary \<^verbatim>\<open>crop_info\<close>.\<close>

record crop_rect =
  crop_x :: int
  crop_y :: int
  crop_width :: int
  crop_height :: int
  crop_confidence :: pyfloat
  crop_method :: method_tag
  center_x :: "pyfloat option"
  center_y :: "pyfloat option"
  salient_bbox :: "nbox option"

subsection \<open>Python primitives\<close>

definition py_int :: "pyfloat \<Rightarrow> int" where
  "py_int q = (if 0 \<le> q then \<lfloor>q\<rfloor> else \<lceil>q\<rceil>)"

text \<open>\<^verbatim>\<open>min(xs)\<close> and \<^verbatim>\<open>max(xs)\<close> of a list that is not empty (the only use in the source).\<close>

fun py_min :: "pyfloat list \<Rightarrow> pyfloat" where
  "py_min [] = 0"
| "py_min (v # vs) = fold min vs v"

fun py_max :: "pyfloat list \<Rightarrow> pyfloat" where
  "py_max [] = 0"
| "py_max (v # vs) = fold max vs v"

subsection \<open>The aggregation of \<^verbatim>\<open>detect_salient_regions\<close>\<close>

text \<open>
  Lines 157 to 189: from the three lists of regions that the detectors filled, the union
  box and the mean confidence. The detectors themselves are an external library; their
  lists are the input here.
\<close>

definition aggregate_regions :: "int \<Rightarrow> int \<Rightarrow> region list \<Rightarrow> region list \<Rightarrow> region list \<Rightarrow> salience" where
  "aggregate_regions width height fs ps hs =
     (let all_regions = map normalized_bbox fs @ map normalized_bbox ps @ map normalized_bbox hs
      in if all_regions \<noteq> [] then
           (let min_x = py_min (map (\<lambda>(r0, r1, r2, r3). r0) all_regions);
                min_y = py_min (map (\<lambda>(r0, r1, r2, r3). r1) all_regions);
                max_x = py_max (map (\<lambda>(r0, r1, r2, r3). r0 + r2) all_regions);
                max_y = py_max (map (\<lambda>(r0, r1, r2, r3). r1 + r3) all_regions);
                total_confidence = sum_list (map confidence (fs @ ps @ hs));
                total_regions = int (length (fs @ ps @ hs))
            in \<lparr>faces = fs, poses = ps, hands = hs,
                overall_bbox = Some \<lparr>normalized = (min_x, min_y, max_x - min_x, max_y - min_y),
                  absolute = (py_int (min_x * of_int width), py_int (min_y * of_int height),
                    py_int ((max_x - min_x) * of_int width), py_int ((max_y - min_y) * of_int height))\<rparr>,
                sal_confidence = total_confidence / of_int (max 1 total_regions)\<rparr>)
         else \<lparr>faces = fs, poses = ps, hands = hs, overall_bbox = None, sal_confidence = 0\<rparr>)"

subsection \<open>The crop planner\<close>

definition target_ratio_of :: "string \<Rightarrow> pyfloat" where
  "target_ratio_of target_aspect_ratio =
     (if target_aspect_ratio = ''9:16'' then 9 / 16
      else if target_aspect_ratio = ''16:9'' then 16 / 9
      else if target_aspect_ratio = ''1:1'' then 1
      else if target_aspect_ratio = ''4:3'' then 4 / 3
      else 9 / 16)"

definition calculate_autoflip_crop :: "int \<Rightarrow> int \<Rightarrow> salience \<Rightarrow> string \<Rightarrow> error + crop_rect" where
  "calculate_autoflip_crop frame_width frame_height salient_regions target_aspect_ratio =
     (let target_ratio = target_ratio_of target_aspect_ratio in
      if frame_height = 0 then Inl ZeroDivisionError
      else
       (let current_ratio = of_int frame_width / of_int frame_height;
            crop_info = \<lparr>crop_x = 0, crop_y = 0, crop_width = frame_width,
              crop_height = frame_height, crop_confidence = 0, crop_method = center_crop,
              center_x = None, center_y = None, salient_bbox = None\<rparr>
        in case overall_bbox salient_regions of
             Some ob \<Rightarrow>
               (case normalized ob of (b0, b1, b2, b3) \<Rightarrow>
                 (let cx = b0 + b2 / 2;
                      cy = b1 + b3 / 2
                  in if target_ratio < current_ratio then
                       (let h = frame_height;
                            w = py_int (of_int h * target_ratio);
                            x0 = py_int (cx * of_int frame_width - of_int w / 2);
                            x = max 0 (min x0 (frame_width - w));
                            y = 0
                        in Inr (crop_info\<lparr>crop_x := x, crop_y := y, crop_width := w,
                             crop_height := h, crop_confidence := sal_confidence salient_regions,
                             crop_method := autoflip_salient, center_x := Some cx,
                             center_y := Some cy, salient_bbox := Some (b0, b1, b2, b3)\<rparr>))
                     else
                       (let w = frame_width;
                            h = py_int (of_int w / target_ratio);
                            y0 = py_int (cy * of_int frame_height - of_int h / 2);
                            y = max 0 (min y0 (frame_height - h));
                            x = 0
                        in Inr (crop_info\<lparr>crop_x := x, crop_y := y, crop_width := w,
                             crop_height := h, crop_confidence := sal_confidence salient_regions,
                             crop_method := autoflip_salient, center_x := Some cx,
                             center_y := Some cy, salient_bbox := Some (b0, b1, b2, b3)\<rparr>))))
           | None \<Rightarrow>
               (if target_ratio < current_ratio then
                  (let h = frame_height;
                       w = py_int (of_int h * target_ratio);
                       x = (frame_width - w) div 2;
                       y = 0
                   in Inr (crop_info\<lparr>crop_x := x, crop_y := y, crop_width := w,
                        crop_height := h, crop_confidence := 1 / 10,
                        crop_method := center_crop_fallback\<rparr>))
                else
                  (let w = frame_width;
                       h = py_int (of_int w / target_ratio);
                       x = 0;
                       y = (frame_height - h) div 2
                   in Inr (crop_info\<lparr>crop_x := x, crop_y := y, crop_width := w,
                        crop_height := h, crop_confidence := 1 / 10,
                        crop_method := center_crop_fallback\<rparr>)))))"

subsection \<open>The temporal smoother\<close>

text \<open>One entry of \<^verbatim>\<open>frame_analyses\<close>, and one entry of the smoother's output.\<close>

record frame_analysis =
  frame_idx :: int
  timestamp :: pyfloat
  salient_regions :: salience
  crop_info :: crop_rect

record smoothed_crop =
  sc_frame_idx :: int
  sc_timestamp :: pyfloat
  sc_x :: int
  sc_y :: int
  sc_width :: int
  sc_height :: int
  sc_confidence :: pyfloat
  sc_method :: method_tag

text \<open>
  The body of the inner loop, lines 384 to 395: the dictionary it builds, and the one
  operation in it that can raise, the division by \<^verbatim>\<open>fps\<close> of the time stamp (the
  division by \<^verbatim>\<open>frame_diff\<close> is guarded).
\<close>

definition interpolated_entry :: "frame_analysis \<Rightarrow> frame_analysis \<Rightarrow> pyfloat \<Rightarrow> int \<Rightarrow> smoothed_crop" where
  "interpolated_entry current_analysis next_analysis fps frame_offset =
     (let current_frame = frame_idx current_analysis;
          next_frame = frame_idx next_analysis;
          current_crop = crop_info current_analysis;
          next_crop = crop_info next_analysis;
          frame_diff = next_frame - current_frame;
          interpolation_factor =
            (if frame_diff > 0 then of_int frame_offset / of_int frame_diff else 0)
      in \<lparr>sc_frame_idx = current_frame + frame_offset,
          sc_timestamp = of_int (current_frame + frame_offset) / fps,
          sc_x = py_int (of_int (crop_x current_crop)
                   + of_int (crop_x next_crop - crop_x current_crop) * interpolation_factor),
          sc_y = py_int (of_int (crop_y current_crop)
                   + of_int (crop_y next_crop - crop_y current_crop) * interpolation_factor),
          sc_width = py_int (of_int (crop_width current_crop)
                   + of_int (crop_width next_crop - crop_width current_crop) * interpolation_factor),
          sc_height = py_int (of_int (crop_height current_crop)
                   + of_int (crop_height next_crop - crop_height current_crop) * interpolation_factor),
          sc_confidence = crop_confidence current_crop
                   + (crop_confidence next_crop - crop_confidence current_crop) * interpolation_factor,
          sc_method = interpolated\<rparr>)"

definition interpolated_crop :: "frame_analysis \<Rightarrow> frame_analysis \<Rightarrow> pyfloat \<Rightarrow> int \<Rightarrow> error + smoothed_crop" where
  "interpolated_crop current_analysis next_analysis fps frame_offset =
     (if fps = 0 then Inl ZeroDivisionError
      else Inr (interpolated_entry current_analysis next_analysis fps frame_offset))"

text \<open>A \<^verbatim>\<open>for\<close> loop that appends one entry per element and stops at the first exception.\<close>

fun for_each :: "('a \<Rightarrow> error + 'b) \<Rightarrow> 'a list \<Rightarrow> error + 'b list" where
  "for_each f [] = Inr []"
| "for_each f (a # as) =
     (case f a of
        Inl e \<Rightarrow> Inl e
      | Inr b \<Rightarrow> (case for_each f as of Inl e \<Rightarrow> Inl e | Inr bs \<Rightarrow> Inr (b # bs)))"

text \<open>
  The outer loop over \<^verbatim>\<open>range(len(frame_analyses) - 1)\<close>, on the list of the analyses
  still to visit; \<^verbatim>\<open>range(frame_diff)\<close> is \<open>[0..frame_diff - 1]\<close>, empty for
  \<open>frame_diff \<le> 0\<close>.
\<close>

fun smooth_pairs :: "pyfloat \<Rightarrow> frame_analysis list \<Rightarrow> smoothed_crop list \<Rightarrow> error + smoothed_crop list" where
  "smooth_pairs fps (current_analysis # next_analysis # rest) smoothed_crops =
     (let frame_diff = frame_idx next_analysis - frame_idx current_analysis
      in case for_each (interpolated_crop current_analysis next_analysis fps) [0..frame_diff - 1] of
           Inl e \<Rightarrow> Inl e
         | Inr cs \<Rightarrow> smooth_pairs fps (next_analysis # rest) (smoothed_crops @ cs))"
| "smooth_pairs fps [a] smoothed_crops = Inr smoothed_crops"
| "smooth_pairs fps [] smoothed_crops = Inr smoothed_crops"

definition last_crop_entry :: "frame_analysis \<Rightarrow> smoothed_crop" where
  "last_crop_entry last_analysis =
     (let last_crop = crop_info last_analysis
      in \<lparr>sc_frame_idx = frame_idx last_analysis, sc_timestamp = timestamp last_analysis,
          sc_x = crop_x last_crop, sc_y = crop_y last_crop, sc_width = crop_width last_crop,
          sc_height = crop_height last_crop, sc_confidence = crop_confidence last_crop,
          sc_method = crop_method last_crop\<rparr>)"

definition smooth_crop_transitions :: "frame_analysis list \<Rightarrow> int \<Rightarrow> pyfloat \<Rightarrow> error + smoothed_crop list" where
  "smooth_crop_transitions frame_analyses total_frames fps =
     (if frame_analyses = [] then Inr []
      else case smooth_pairs fps frame_analyses [] of
             Inl e \<Rightarrow> Inl e
           | Inr smoothed_crops \<Rightarrow>
               (if frame_analyses \<noteq> [] then
                  Inr (smoothed_crops @ [last_crop_entry (last frame_analyses)])
                else Inr smoothed_crops))"

text \<open>
  The entries the two loops append for a list of analyses when no exception is raised,
  in order: for each pair of neighbours, one entry per offset in \<^verbatim>\<open>range(frame_diff)\<close>.
  The lemmas below show that \<open>smooth_pairs\<close> computes exactly these.
\<close>

fun interpolated_entries :: "pyfloat \<Rightarrow> frame_analysis list \<Rightarrow> smoothed_crop list" where
  "interpolated_entries fps (a # b # rest) =
     map (interpolated_entry a b fps) [0..frame_idx b - frame_idx a - 1]
       @ interpolated_entries fps (b # rest)"
| "interpolated_entries fps [a] = []"
| "interpolated_entries fps [] = []"

subsection \<open>The driver\<close>

text \<open>
  The external world of a run. \<^verbatim>\<open>cv2.VideoCapture(path)\<close> either fails to open
  (\<open>None\<close>) or gives a capture with its four properties, as the floats \<^verbatim>\<open>cap.get\<close>
  returns, and the finite sequence of frames that \<^verbatim>\<open>cap.read()\<close> delivers. The three
  detectors of the external library are functions from a frame to the regions they
  report, and \<^verbatim>\<open>frame.shape[:2]\<close> is \<open>shape\<close>. Library calls other than these (argument
  parsing, loading the models, colour conversion, opening and writing the output file)
  are taken to succeed.
\<close>

record 'f capture =
  cap_fps :: pyfloat
  cap_frame_count :: pyfloat
  cap_frame_width :: pyfloat
  cap_frame_height :: pyfloat
  cap_frames :: "'f list"

record 'f world =
  path_exists :: "string \<Rightarrow> bool"
  video_capture :: "string \<Rightarrow> 'f capture option"
  shape :: "'f \<Rightarrow> int \<times> int"
  detect_faces :: "'f \<Rightarrow> region list"
  detect_poses :: "'f \<Rightarrow> region list"
  detect_hands :: "'f \<Rightarrow> region list"

definition detect_salient_regions :: "'f world \<Rightarrow> 'f \<Rightarrow> salience" where
  "detect_salient_regions env frame =
     (case shape env frame of (height, width) \<Rightarrow>
        aggregate_regions width height (detect_faces env frame) (detect_poses env frame)
          (detect_hands env frame))"

text \<open>The lines the program prints; a traceback is what an uncaught exception leaves.\<close>

datatype line =
    Analyzing_video int int int pyfloat
  | Sampling_every int
  | Frame_line int nat nat pyfloat
  | Error_input_not_found string
  | Starting
  | Error_line string
  | Completed
  | Results_saved string
  | Processing_stats int int pyfloat int
  | Traceback error

record stats =
  total_faces_detected :: int
  total_poses_detected :: int
  average_confidence :: pyfloat
  frames_with_salient_content :: int

record report =
  input_path :: string
  output_path :: string
  target_aspect_ratio :: string
  original_dimensions :: "int \<times> int"
  frame_count :: int
  fps :: pyfloat
  sample_rate :: int
  frame_analyses :: "frame_analysis list"
  smoothed_crops :: "smoothed_crop list"
  processing_stats :: stats

text \<open>The dictionary a run returns: \<^verbatim>\<open>{'error': msg}\<close> or the full report.\<close>

datatype result = Error_result string | Report report

text \<open>
  The \<^verbatim>\<open>while True\<close> loop over the frames that \<^verbatim>\<open>cap.read()\<close> delivers, with the frame
  counter, the analyses appended so far and the lines printed so far. An exception leaves
  the loop with the lines printed before it.
\<close>

fun analyse_frames ::
  "'f world \<Rightarrow> int \<Rightarrow> int \<Rightarrow> string \<Rightarrow> pyfloat \<Rightarrow> int \<Rightarrow> 'f list \<Rightarrow> int \<Rightarrow>
     frame_analysis list \<Rightarrow> line list \<Rightarrow> line list \<times> (error + frame_analysis list)" where
  "analyse_frames env frame_width frame_height ratio fps_v sample_interval [] idx analyses out =
     (out, Inr analyses)"
| "analyse_frames env frame_width frame_height ratio fps_v sample_interval (frame # frames) idx analyses out =
     (if idx mod sample_interval = 0 then
        (let regions = detect_salient_regions env frame
         in case calculate_autoflip_crop frame_width frame_height regions ratio of
              Inl e \<Rightarrow> (out, Inl e)
            | Inr crop \<Rightarrow>
                (if fps_v = 0 then (out, Inl ZeroDivisionError)
                 else analyse_frames env frame_width frame_height ratio fps_v sample_interval frames
                        (idx + 1)
                        (analyses @ [\<lparr>frame_idx = idx, timestamp = of_int idx / fps_v,
                           salient_regions = regions, crop_info = crop\<rparr>])
                        (out @ [Frame_line idx (length (faces regions)) (length (poses regions))
                           (sal_confidence regions)])))
      else analyse_frames env frame_width frame_height ratio fps_v sample_interval frames (idx + 1)
             analyses out)"

definition process_video_autoflip ::
  "'f world \<Rightarrow> string \<Rightarrow> string \<Rightarrow> string \<Rightarrow> int \<Rightarrow> line list \<times> (error + result)" where
  "process_video_autoflip env input output ratio rate =
     (case video_capture env input of
        None \<Rightarrow> ([], Inr (Error_result ''Could not open video file''))
      | Some cap \<Rightarrow>
          (let fps_v = cap_fps cap;
               count = py_int (cap_frame_count cap);
               frame_width = py_int (cap_frame_width cap);
               frame_height = py_int (cap_frame_height cap)
           in if rate = 0 then ([], Inl ZeroDivisionError)
              else
               (let sample_interval = max 1 (count div rate);
                    out = [Analyzing_video frame_width frame_height count fps_v,
                           Sampling_every sample_interval]
                in case analyse_frames env frame_width frame_height ratio fps_v sample_interval
                          (cap_frames cap) 0 [] out of
                     (out', Inl e) \<Rightarrow> (out', Inl e)
                   | (out', Inr analyses) \<Rightarrow>
                       (case smooth_crop_transitions analyses count fps_v of
                          Inl e \<Rightarrow> (out', Inl e)
                        | Inr smoothed \<Rightarrow>
                            (out', Inr (Report
                               \<lparr>input_path = input, output_path = output,
                                target_aspect_ratio = ratio,
                                original_dimensions = (frame_width, frame_height),
                                frame_count = count, fps = fps_v, sample_rate = rate,
                                frame_analyses = analyses, smoothed_crops = smoothed,
                                processing_stats =
                                  \<lparr>total_faces_detected =
                                     sum_list (map (\<lambda>fa. int (length (faces (salient_regions fa)))) analyses),
                                   total_poses_detected =
                                     sum_list (map (\<lambda>fa. int (length (poses (salient_regions fa)))) analyses),
                                   average_confidence =
                                     (if analyses \<noteq> [] then
                                        sum_list (map (\<lambda>fa. sal_confidence (salient_regions fa)) analyses)
                                          / of_int (int (length analyses))
                                      else 0),
                                   frames_with_salient_content =
                                     int (length (filter (\<lambda>fa. overall_bbox (salient_regions fa) \<noteq> None)
                                       analyses))\<rparr>\<rparr>))))))"

text \<open>
  What a run of the program leaves: its exit code, the lines on standard output and on
  standard error, and the output file (its path and content) if one was written.
  \<^verbatim>\<open>print\<close> writes to standard output; \<^verbatim>\<open>sys.exit(1)\<close> ends the run with code 1; an
  uncaught exception ends it with code 1 and a traceback on standard error.
\<close>

record run =
  exit_code :: int
  stdout :: "line list"
  stderr :: "line list"
  written :: "(string \<times> report) option"

definition main :: "'f world \<Rightarrow> string \<Rightarrow> string \<Rightarrow> string \<Rightarrow> int \<Rightarrow> run" where
  "main env input_video output_json aspect_ratio rate =
     (if \<not> path_exists env input_video then
        \<lparr>exit_code = 1, stdout = [Error_input_not_found input_video], stderr = [],
         written = None\<rparr>
      else
        (case process_video_autoflip env input_video output_json aspect_ratio rate of
           (out, Inl e) \<Rightarrow>
             \<lparr>exit_code = 1, stdout = Starting # out, stderr = [Traceback e], written = None\<rparr>
         | (out, Inr (Error_result msg)) \<Rightarrow>
             \<lparr>exit_code = 1, stdout = Starting # out @ [Error_line msg], stderr = [],
              written = None\<rparr>
         | (out, Inr (Report r)) \<Rightarrow>
             \<lparr>exit_code = 0,
              stdout = Starting # out @ [Completed, Results_saved output_json,
                Processing_stats (total_faces_detected (processing_stats r))
                  (total_poses_detected (processing_stats r))
                  (average_confidence (processing_stats r))
                  (frames_with_salient_content (processing_stats r))],
              stderr = [], written = Some (output_json, r)\<rparr>))"

subsection \<open>Predicates of the properties\<close>

text \<open>A rectangle lies within a frame of the given width and height.\<close>

definition within_frame :: "int \<Rightarrow> int \<Rightarrow> int \<Rightarrow> int \<Rightarrow> int \<Rightarrow> int \<Rightarrow> bool" where
  "within_frame fw fh x y w h = (0 \<le> x \<and> 0 \<le> y \<and> x + w \<le> fw \<and> y + h \<le> fh)"

definition crop_within :: "int \<Rightarrow> int \<Rightarrow> crop_rect \<Rightarrow> bool" where
  "crop_within fw fh c = within_frame fw fh (crop_x c) (crop_y c) (crop_width c) (crop_height c)"

definition sc_within :: "int \<Rightarrow> int \<Rightarrow> smoothed_crop \<Rightarrow> bool" where
  "sc_within fw fh s = within_frame fw fh (sc_x s) (sc_y s) (sc_width s) (sc_height s)"

text \<open>The rectangle, confidence and method of a crop, and of a smoothed entry.\<close>

definition crop_fields :: "crop_rect \<Rightarrow> int \<times> int \<times> int \<times> int \<times> pyfloat \<times> method_tag" where
  "crop_fields c =
     (crop_x c, crop_y c, crop_width c, crop_height c, crop_confidence c, crop_method c)"

definition sc_fields :: "smoothed_crop \<Rightarrow> int \<times> int \<times> int \<times> int \<times> pyfloat \<times> method_tag" where
  "sc_fields s = (sc_x s, sc_y s, sc_width s, sc_height s, sc_confidence s, sc_method s)"

text \<open>
  The distance of a crop's aspect ratio from the target ratio of a label, and the bound
  \<open>1 / min(width, height)\<close>.
\<close>

definition ratio_error :: "crop_rect \<Rightarrow> string \<Rightarrow> pyfloat" where
  "ratio_error c l = \<bar>of_int (crop_width c) / of_int (crop_height c) - target_ratio_of l\<bar>"

definition rounding_bound :: "crop_rect \<Rightarrow> pyfloat" where
  "rounding_bound c = 1 / of_int (min (crop_width c) (crop_height c))"

definition meets_rounding_bound :: "string \<Rightarrow> crop_rect \<Rightarrow> bool" where
  "meets_rounding_bound l c = (ratio_error c l \<le> rounding_bound c)"

subsection \<open>Inputs of the scenarios\<close>

text \<open>What \<^verbatim>\<open>detect_salient_regions\<close> returns for a frame with no region.\<close>

definition no_regions :: salience where
  "no_regions = \<lparr>faces = [], poses = [], hands = [], overall_bbox = None, sal_confidence = 0\<rparr>"

text \<open>
  A 1920 by 1080 frame with one face whose normalised box is \<open>(0.4, 0.4, 0.2, 0.2)\<close>, with
  the confidence and the pixel box the detector gave it.
\<close>

definition single_face :: "pyfloat \<Rightarrow> pbox \<Rightarrow> salience" where
  "single_face cf pb =
     aggregate_regions 1920 1080
       [\<lparr>bbox = pb, confidence = cf, normalized_bbox = (2 / 5, 2 / 5, 1 / 5, 1 / 5)\<rparr>] [] []"

text \<open>
  Two sampled analyses of 1920 by 1080 frames for the label \<^verbatim>\<open>9:16\<close>, at a given frame
  index and 30 frames per second: one of a frame without regions, one of a frame with a
  face in the upper left corner, each with the crop the planner returns for it.
\<close>

definition left_face :: salience where
  "left_face =
     aggregate_regions 1920 1080
       [\<lparr>bbox = (0, 0, 384, 216), confidence = 9 / 10, normalized_bbox = (0, 0, 1 / 5, 1 / 5)\<rparr>] [] []"

definition sample_a :: "int \<Rightarrow> frame_analysis" where
  "sample_a i =
     \<lparr>frame_idx = i, timestamp = of_int i / 30, salient_regions = no_regions,
      crop_info = \<lparr>crop_x = 656, crop_y = 0, crop_width = 607, crop_height = 1080,
        crop_confidence = 1 / 10, crop_method = center_crop_fallback,
        center_x = None, center_y = None, salient_bbox = None\<rparr>\<rparr>"

definition sample_b :: "int \<Rightarrow> frame_analysis" where
  "sample_b i =
     \<lparr>frame_idx = i, timestamp = of_int i / 30, salient_regions = left_face,
      crop_info = \<lparr>crop_x = 0, crop_y = 0, crop_width = 607, crop_height = 1080,
        crop_confidence = 9 / 10, crop_method = autoflip_salient,
        center_x = Some (1 / 10), center_y = Some (1 / 10),
        salient_bbox = Some (0, 0, 1 / 5, 1 / 5)\<rparr>\<rparr>"

text \<open>
  Worlds of a run, with frames named by numbers. In \<open>closed_world\<close> no video can be
  opened, and the input path exists or not as the argument says. In \<open>tiny_world\<close> every
  path exists and opens as a video of three 1920 by 1080 frames at 30 frames per second in
  which the detectors find nothing.
\<close>

definition closed_world :: "bool \<Rightarrow> nat world" where
  "closed_world present =
     \<lparr>path_exists = (\<lambda>p. present), video_capture = (\<lambda>p. None), shape = (\<lambda>f. (1080, 1920)),
      detect_faces = (\<lambda>f. []), detect_poses = (\<lambda>f. []), detect_hands = (\<lambda>f. [])\<rparr>"

definition tiny_world :: "nat world" where
  "tiny_world =
     \<lparr>path_exists = (\<lambda>p. True),
      video_capture = (\<lambda>p. Some \<lparr>cap_fps = 30, cap_frame_count = 3, cap_frame_width = 1920,
        cap_frame_height = 1080, cap_frames = [0, 1, 2]\<rparr>),
      shape = (\<lambda>f. (1080, 1920)),
      detect_faces = (\<lambda>f. []), detect_poses = (\<lambda>f. []), detect_hands = (\<lambda>f. [])\<rparr>"

section \<open>Arithmetic of truncation\<close>

lemma floor_numeral_div: "\<lfloor>numeral a / numeral b :: rat\<rfloor> = numeral a div numeral b"
  using floor_divide_of_int_eq [of "numeral a" "numeral b", where ?'a = rat] by simp

lemma py_int_nonneg: "0 \<le> q \<Longrightarrow> py_int q = \<lfloor>q\<rfloor>"
  by (simp add: py_int_def)

lemma py_int_of_int: "py_int (of_int n) = n"
  by (simp add: py_int_def)

lemma target_ratio_pos: "0 < target_ratio_of l"
  by (simp add: target_ratio_of_def)

lemma target_ratio_cases:
  "target_ratio_of l = 9 / 16 \<or> target_ratio_of l = 16 / 9 \<or> target_ratio_of l = 1 \<or> target_ratio_of l = 4 / 3"
  by (simp add: target_ratio_of_def)

lemma target_ratio_16_9: "target_ratio_of l = 16 / 9 \<Longrightarrow> l = ''16:9''"
  by (simp add: target_ratio_of_def split: if_splits)

lemma aggregate_no_regions: "aggregate_regions w h [] [] [] = no_regions"
  by (simp add: aggregate_regions_def no_regions_def)

text \<open>The width of the narrow branch and the height of the short branch fit the frame.\<close>

lemma narrow_width:
  assumes "0 < fh" "0 < r" "r < of_int fw / of_int fh"
  shows "0 \<le> py_int (of_int fh * r) \<and> py_int (of_int fh * r) \<le> fw"
proof -
  have nn: "(0::rat) \<le> of_int fh * r" using assms by simp
  have "of_int fh * r < (of_int fw :: rat)"
    using assms by (simp add: pos_less_divide_eq mult.commute)
  then have "\<lfloor>of_int fh * r\<rfloor> \<le> fw" by linarith
  moreover have "0 \<le> \<lfloor>of_int fh * r\<rfloor>" using nn by simp
  ultimately show ?thesis using nn by (simp add: py_int_nonneg)
qed

lemma short_height:
  assumes "0 < fw" "0 < fh" "0 < r" "\<not> r < of_int fw / of_int fh"
  shows "0 \<le> py_int (of_int fw / r) \<and> py_int (of_int fw / r) \<le> fh"
proof -
  have nn: "(0::rat) \<le> of_int fw / r" using assms by simp
  have "of_int fw / of_int fh \<le> r" using assms by simp
  then have "(of_int fw :: rat) \<le> r * of_int fh"
    using assms by (simp add: pos_divide_le_eq)
  then have "of_int fw / r \<le> (of_int fh :: rat)"
    using assms by (simp add: pos_divide_le_eq mult.commute)
  then have "\<lfloor>of_int fw / r\<rfloor> \<le> fh" by linarith
  moreover have "0 \<le> \<lfloor>of_int fw / r\<rfloor>" using nn by simp
  ultimately show ?thesis using nn by (simp add: py_int_nonneg)
qed

text \<open>How far truncation moves the ratio.\<close>

lemma err_narrow:
  fixes r :: rat
  assumes "0 < fh" "0 < r" "w = \<lfloor>of_int fh * r\<rfloor>"
  shows "\<bar>of_int w / of_int fh - r\<bar> < 1 / of_int fh"
proof -
  have a: "of_int w \<le> of_int fh * r" using assms(3) by simp
  have b: "of_int fh * r < of_int w + 1" using assms(3) by linarith
  have fhp: "(0::rat) < of_int fh" using assms(1) by simp
  have "of_int w / of_int fh - r = (of_int w - of_int fh * r) / of_int fh"
    using fhp by (simp add: field_simps)
  moreover have "\<bar>of_int w - of_int fh * r\<bar> < 1" using a b by linarith
  ultimately show ?thesis using fhp by (simp add: divide_strict_right_mono)
qed

lemma err_short:
  fixes r :: rat
  assumes "0 < r" "h = \<lfloor>of_int fw / r\<rfloor>" "0 < h"
  shows "0 \<le> of_int fw / of_int h - r \<and> of_int fw / of_int h - r < r / of_int h"
proof -
  have hp: "(0::rat) < of_int h" using assms(3) by simp
  have a: "of_int h \<le> of_int fw / r" using assms(2) by simp
  have b: "of_int fw / r < of_int h + 1" using assms(2) by linarith
  have a': "of_int h * r \<le> of_int fw" using a assms(1) by (simp add: pos_le_divide_eq)
  have b': "of_int fw < (of_int h + 1) * r" using b assms(1) by (simp add: pos_divide_less_eq)
  have e: "of_int fw / of_int h - r = (of_int fw - of_int h * r) / of_int h"
    using hp by (simp add: field_simps)
  have "0 \<le> of_int fw - of_int h * r" using a' by simp
  moreover have "of_int fw - of_int h * r < r" using b' by (simp add: algebra_simps)
  ultimately show ?thesis using hp e by (simp add: divide_strict_right_mono)
qed

lemma err_short_43:
  assumes "h = \<lfloor>of_int fw / (4 / 3 :: rat)\<rfloor>" "0 < h"
  shows "of_int fw / of_int h - (4 / 3 :: rat) \<le> 1 / of_int h"
proof -
  have "of_int fw / (4 / 3 :: rat) = of_int (3 * fw) / of_int 4" by simp
  then have "h = (3 * fw) div 4" using assms(1) by (simp only: floor_divide_of_int_eq)
  then have "3 * fw - 4 * h \<le> 3" by presburger
  then have "(of_int (3 * fw - 4 * h) :: rat) \<le> of_int 3" by (simp only: of_int_le_iff)
  then have i: "3 * (of_int fw :: rat) - 4 * of_int h \<le> 3" by simp
  have hp: "(0::rat) < of_int h" using assms(2) by simp
  have "of_int fw / of_int h - (4 / 3 :: rat) = (3 * of_int fw - 4 * of_int h) / (3 * of_int h)"
    using hp by (simp add: field_simps)
  also have "\<dots> \<le> 3 / (3 * of_int h)"
  proof (rule divide_right_mono)
    show "3 * (of_int fw :: rat) - 4 * of_int h \<le> 3" by (rule i)
    show "(0::rat) \<le> 3 * of_int h" using hp by simp
  qed
  also have "\<dots> = 1 / of_int h" by simp
  finally show ?thesis .
qed

lemma inv_min:
  fixes a :: rat
  assumes "0 < w" "0 < h" "0 \<le> a"
  shows "a / of_int h \<le> a / of_int (min w h)" "a / of_int w \<le> a / of_int (min w h)"
proof -
  have m: "(0::rat) < of_int (min w h)" using assms by simp
  have "(of_int (min w h) :: rat) \<le> of_int h" by simp
  then show "a / of_int h \<le> a / of_int (min w h)"
    using m assms(3) by (simp add: divide_left_mono frac_le)
  have "(of_int (min w h) :: rat) \<le> of_int w" by simp
  then show "a / of_int w \<le> a / of_int (min w h)"
    using m assms(3) by (simp add: frac_le)
qed

section \<open>The crop planner, by branch\<close>

lemma calc_narrow:
  assumes "fh \<noteq> 0" "target_ratio_of l < of_int fw / of_int fh"
  shows "\<exists>c. calculate_autoflip_crop fw fh sal l = Inr c
     \<and> crop_height c = fh \<and> crop_width c = py_int (of_int fh * target_ratio_of l)
     \<and> crop_y c = 0
     \<and> crop_x c = (case overall_bbox sal of
          None \<Rightarrow> (fw - crop_width c) div 2
        | Some ob \<Rightarrow> (case normalized ob of (b0, b1, b2, b3) \<Rightarrow>
            max 0 (min (py_int ((b0 + b2 / 2) * of_int fw - of_int (crop_width c) / 2)) (fw - crop_width c))))
     \<and> crop_method c = (if overall_bbox sal = None then center_crop_fallback else autoflip_salient)
     \<and> crop_confidence c = (if overall_bbox sal = None then 1 / 10 else sal_confidence sal)"
  using assms
  by (simp add: calculate_autoflip_crop_def Let_def split: option.splits prod.splits)

lemma calc_short:
  assumes "fh \<noteq> 0" "\<not> target_ratio_of l < of_int fw / of_int fh"
  shows "\<exists>c. calculate_autoflip_crop fw fh sal l = Inr c
     \<and> crop_width c = fw \<and> crop_height c = py_int (of_int fw / target_ratio_of l)
     \<and> crop_x c = 0
     \<and> crop_y c = (case overall_bbox sal of
          None \<Rightarrow> (fh - crop_height c) div 2
        | Some ob \<Rightarrow> (case normalized ob of (b0, b1, b2, b3) \<Rightarrow>
            max 0 (min (py_int ((b1 + b3 / 2) * of_int fh - of_int (crop_height c) / 2)) (fh - crop_height c))))
     \<and> crop_method c = (if overall_bbox sal = None then center_crop_fallback else autoflip_salient)
     \<and> crop_confidence c = (if overall_bbox sal = None then 1 / 10 else sal_confidence sal)"
  using assms
  by (simp add: calculate_autoflip_crop_def Let_def split: option.splits prod.splits)

lemma planner_within:
  assumes "0 < fw" "0 < fh"
  shows "\<exists>c. calculate_autoflip_crop fw fh sal l = Inr c \<and> crop_within fw fh c"
proof (cases "target_ratio_of l < of_int fw / of_int fh")
  case True
  from calc_narrow [of fh l fw sal] assms True obtain c where
    c: "calculate_autoflip_crop fw fh sal l = Inr c" "crop_height c = fh"
       "crop_width c = py_int (of_int fh * target_ratio_of l)" "crop_y c = 0"
       "crop_x c = (case overall_bbox sal of
          None \<Rightarrow> (fw - crop_width c) div 2
        | Some ob \<Rightarrow> (case normalized ob of (b0, b1, b2, b3) \<Rightarrow>
            max 0 (min (py_int ((b0 + b2 / 2) * of_int fw - of_int (crop_width c) / 2)) (fw - crop_width c))))"
    by auto
  have w: "0 \<le> crop_width c" "crop_width c \<le> fw"
    using narrow_width [OF assms(2) target_ratio_pos True] c(3) by simp_all
  have "0 \<le> crop_x c \<and> crop_x c + crop_width c \<le> fw"
    using w c(5) by (auto split: option.splits prod.splits)
  then show ?thesis using c by (auto simp: crop_within_def within_frame_def)
next
  case False
  from calc_short [of fh l fw sal] assms False obtain c where
    c: "calculate_autoflip_crop fw fh sal l = Inr c" "crop_width c = fw"
       "crop_height c = py_int (of_int fw / target_ratio_of l)" "crop_x c = 0"
       "crop_y c = (case overall_bbox sal of
          None \<Rightarrow> (fh - crop_height c) div 2
        | Some ob \<Rightarrow> (case normalized ob of (b0, b1, b2, b3) \<Rightarrow>
            max 0 (min (py_int ((b1 + b3 / 2) * of_int fh - of_int (crop_height c) / 2)) (fh - crop_height c))))"
    by auto
  have h: "0 \<le> crop_height c" "crop_height c \<le> fh"
    using short_height [OF assms target_ratio_pos False] c(3) by simp_all
  have "0 \<le> crop_y c \<and> crop_y c + crop_height c \<le> fh"
    using h c(5) by (auto split: option.splits prod.splits)
  then show ?thesis using c by (auto simp: crop_within_def within_frame_def)
qed

lemma bound_narrow:
  assumes "0 < fh" "crop_height c = fh" "crop_width c = py_int (of_int fh * target_ratio_of l)"
    "0 < crop_width c"
  shows "ratio_error c l \<le> rounding_bound c"
proof -
  let ?r = "target_ratio_of l"
  have w: "crop_width c = \<lfloor>of_int fh * ?r\<rfloor>"
    using assms(1,3) target_ratio_pos [of l] by (simp add: py_int_nonneg)
  have "ratio_error c l < 1 / of_int fh"
    using err_narrow [OF assms(1) target_ratio_pos w] assms(2) by (simp add: ratio_error_def)
  also have "\<dots> \<le> 1 / of_int (min (crop_width c) fh)"
    using inv_min(1) [OF assms(4) assms(1), of 1] by simp
  finally show ?thesis using assms(2) by (simp add: rounding_bound_def)
qed

lemma bound_short:
  assumes "0 < fw" "crop_width c = fw" "crop_height c = py_int (of_int fw / target_ratio_of l)"
    "0 < crop_height c"
  shows "ratio_error c l \<le> max 1 (target_ratio_of l) * rounding_bound c"
    and "l \<noteq> ''16:9'' \<Longrightarrow> ratio_error c l \<le> rounding_bound c"
proof -
  let ?r = "target_ratio_of l"
  let ?h = "crop_height c"
  have rp: "0 < ?r" by (rule target_ratio_pos)
  have h: "?h = \<lfloor>of_int fw / ?r\<rfloor>"
    using assms(1,3) rp by (simp add: py_int_nonneg)
  from err_short [OF rp h assms(4)]
  have e: "0 \<le> of_int fw / of_int ?h - ?r" "of_int fw / of_int ?h - ?r < ?r / of_int ?h"
    by simp_all
  have re: "ratio_error c l = of_int fw / of_int ?h - ?r"
    using e(1) assms(2) by (simp add: ratio_error_def)
  have hm: "a / of_int ?h \<le> a * rounding_bound c" if "0 \<le> a" for a :: rat
    using inv_min(1) [OF _ assms(4) that, of fw] assms(1,2) by (simp add: rounding_bound_def)
  have hp: "(0::rat) < of_int ?h" using assms(4) by simp
  have "?r / of_int ?h \<le> max 1 ?r / of_int ?h"
    using hp by (simp add: divide_right_mono)
  also have "\<dots> \<le> max 1 ?r * rounding_bound c" by (rule hm) simp
  finally show "ratio_error c l \<le> max 1 ?r * rounding_bound c" using re e(2) by simp
  assume "l \<noteq> ''16:9''"
  then consider "?r \<le> 1" | "?r = 4 / 3"
    using target_ratio_cases [of l] target_ratio_16_9 [of l] by auto
  then have "ratio_error c l \<le> 1 / of_int ?h"
  proof cases
    case 1
    then have "?r / of_int ?h \<le> 1 / of_int ?h" using hp by (simp add: divide_right_mono)
    then show ?thesis using re e(2) by simp
  next
    case 2
    have "?h = \<lfloor>of_int fw / (4 / 3 :: rat)\<rfloor>" using h unfolding 2 .
    from err_short_43 [OF this assms(4)] show ?thesis using re unfolding 2 by simp
  qed
  also have "\<dots> \<le> 1 * rounding_bound c" by (rule hm) simp
  finally show "ratio_error c l \<le> rounding_bound c" by simp
qed

section \<open>The temporal smoother, as a list of entries\<close>

lemma for_each_interp_Inr:
  "for_each (interpolated_crop a b fps_v) ks = Inr cs \<Longrightarrow> cs = map (interpolated_entry a b fps_v) ks"
proof (induction ks arbitrary: cs)
  case Nil
  then show ?case by simp
next
  case (Cons k ks)
  then show ?case
    by (auto simp: interpolated_crop_def split: if_splits sum.splits)
qed

lemma for_each_interp_total:
  "fps_v \<noteq> 0 \<Longrightarrow> for_each (interpolated_crop a b fps_v) ks = Inr (map (interpolated_entry a b fps_v) ks)"
  by (induction ks) (simp_all add: interpolated_crop_def)

lemma smooth_pairs_Inr:
  "smooth_pairs fps_v fas acc = Inr out \<Longrightarrow> out = acc @ interpolated_entries fps_v fas"
proof (induction fps_v fas acc arbitrary: out rule: smooth_pairs.induct)
  case (1 fps_v a b rest acc)
  show ?case
  proof (cases "for_each (interpolated_crop a b fps_v) [0..frame_idx b - frame_idx a - 1]")
    case (Inl e)
    with "1.prems" show ?thesis by (simp add: Let_def)
  next
    case (Inr cs)
    with "1.prems" have "smooth_pairs fps_v (b # rest) (acc @ cs) = Inr out"
      by (simp add: Let_def)
    from "1.IH" [OF refl Inr this] have "out = (acc @ cs) @ interpolated_entries fps_v (b # rest)" .
    with for_each_interp_Inr [OF Inr] show ?thesis by simp
  qed
qed simp_all

lemma smooth_pairs_total:
  "fps_v \<noteq> 0 \<Longrightarrow> smooth_pairs fps_v fas acc = Inr (acc @ interpolated_entries fps_v fas)"
  by (induction fps_v fas acc rule: smooth_pairs.induct)
     (simp_all add: Let_def for_each_interp_total)

lemma smooth_Inr:
  assumes "smooth_crop_transitions fas tf fps_v = Inr out"
  shows "out = (if fas = [] then [] else interpolated_entries fps_v fas @ [last_crop_entry (last fas)])"
proof (cases "fas = []")
  case True
  with assms show ?thesis by (simp add: smooth_crop_transitions_def)
next
  case False
  with assms obtain cs where cs: "smooth_pairs fps_v fas [] = Inr cs" "out = cs @ [last_crop_entry (last fas)]"
    by (auto simp: smooth_crop_transitions_def split: sum.splits)
  from smooth_pairs_Inr [OF cs(1)] cs(2) False show ?thesis by simp
qed

lemma smooth_total:
  assumes "fps_v \<noteq> 0"
  shows "smooth_crop_transitions fas tf fps_v =
     Inr (if fas = [] then [] else interpolated_entries fps_v fas @ [last_crop_entry (last fas)])"
  using assms by (simp add: smooth_crop_transitions_def smooth_pairs_total)

lemma length_interpolated_entries:
  assumes "sorted (map frame_idx fas)" "fas \<noteq> []"
  shows "int (length (interpolated_entries fps_v fas)) = frame_idx (last fas) - frame_idx (hd fas)"
  using assms
proof (induction fps_v fas rule: interpolated_entries.induct)
  case (1 fps_v a b rest)
  then have le: "frame_idx a \<le> frame_idx b" by simp
  from 1 have "int (length (interpolated_entries fps_v (b # rest))) = frame_idx (last (b # rest)) - frame_idx b"
    by simp
  with le show ?case by simp
qed simp_all

lemma sorted_le_last:
  fixes xs :: "int list"
  shows "sorted xs \<Longrightarrow> x \<in> set xs \<Longrightarrow> x \<le> last xs"
  by (induction xs) auto

section \<open>Interpolated rectangles stay within the frame\<close>

lemma py_int_le: "0 \<le> q \<Longrightarrow> of_int (py_int q) \<le> q"
  by (simp add: py_int_def)

lemma py_int_less: "of_int (py_int q) < q + 1"
  by (simp add: py_int_def) linarith

lemma py_int_ge0: "0 \<le> q \<Longrightarrow> 0 \<le> py_int q"
  by (simp add: py_int_def)

lemma interp_1d:
  fixes t :: rat
  assumes t: "0 \<le> t" "t \<le> 1"
    and a: "0 \<le> x1" "x1 + w1 \<le> fw"
    and b: "0 \<le> x2" "x2 + w2 \<le> fw"
  shows "0 \<le> py_int (of_int x1 + of_int (x2 - x1) * t)
       \<and> py_int (of_int x1 + of_int (x2 - x1) * t) + py_int (of_int w1 + of_int (w2 - w1) * t) \<le> fw"
proof -
  let ?X = "of_int x1 + of_int (x2 - x1) * t :: rat"
  let ?W = "of_int w1 + of_int (w2 - w1) * t :: rat"
  have X: "?X = (1 - t) * of_int x1 + t * of_int x2" by (simp add: algebra_simps)
  have "0 \<le> (1 - t) * of_int x1" using t a by simp
  moreover have "0 \<le> t * of_int x2" using t b by simp
  ultimately have X0: "0 \<le> ?X" using X by simp
  have S: "?X + ?W = (1 - t) * of_int (x1 + w1) + t * of_int (x2 + w2)"
    by (simp add: algebra_simps)
  have "(1 - t) * of_int (x1 + w1) \<le> (1 - t) * of_int fw"
    using t a by (intro mult_left_mono) simp_all
  moreover have "t * of_int (x2 + w2) \<le> t * of_int fw"
    using t b by (intro mult_left_mono) simp_all
  ultimately have "?X + ?W \<le> (1 - t) * of_int fw + t * of_int fw" using S by linarith
  then have le: "?X + ?W \<le> of_int fw" by (simp add: algebra_simps)
  have "of_int (py_int ?X) + of_int (py_int ?W) < ?X + ?W + 1"
    using py_int_le [OF X0] py_int_less [of ?W] by linarith
  then have "(of_int (py_int ?X + py_int ?W) :: rat) < of_int (fw + 1)" using le by simp
  then have "py_int ?X + py_int ?W < fw + 1" by (simp only: of_int_less_iff)
  then show ?thesis using py_int_ge0 [OF X0] by simp
qed

lemma entry_within:
  assumes "crop_within fw fh (crop_info a)" "crop_within fw fh (crop_info b)"
    "0 \<le> k" "k < frame_idx b - frame_idx a"
  shows "sc_within fw fh (interpolated_entry a b fps_v k)"
proof -
  let ?d = "frame_idx b - frame_idx a"
  let ?t = "of_int k / of_int ?d :: rat"
  have d: "0 < ?d" using assms(3,4) by simp
  have t: "0 \<le> ?t" "?t \<le> 1" using assms(3,4) d by simp_all
  from assms(1,2) have
    A: "0 \<le> crop_x (crop_info a)" "crop_x (crop_info a) + crop_width (crop_info a) \<le> fw"
       "0 \<le> crop_y (crop_info a)" "crop_y (crop_info a) + crop_height (crop_info a) \<le> fh"
    and B: "0 \<le> crop_x (crop_info b)" "crop_x (crop_info b) + crop_width (crop_info b) \<le> fw"
       "0 \<le> crop_y (crop_info b)" "crop_y (crop_info b) + crop_height (crop_info b) \<le> fh"
    by (simp_all add: crop_within_def within_frame_def)
  from interp_1d [OF t A(1,2) B(1,2)] interp_1d [OF t A(3,4) B(3,4)] d
  show ?thesis
    by (simp add: sc_within_def within_frame_def interpolated_entry_def Let_def)
qed

lemma interpolated_entries_within:
  assumes "\<forall>fa\<in>set fas. crop_within fw fh (crop_info fa)"
  shows "\<forall>s\<in>set (interpolated_entries fps_v fas). sc_within fw fh s"
  using assms
proof (induction fps_v fas rule: interpolated_entries.induct)
  case (1 fps_v a b rest)
  then show ?case by (auto intro: entry_within)
qed simp_all

lemma last_entry_within:
  "crop_within fw fh (crop_info a) \<Longrightarrow> sc_within fw fh (last_crop_entry a)"
  by (simp add: crop_within_def sc_within_def last_crop_entry_def Let_def)

lemma smooth_within:
  assumes "\<forall>fa\<in>set fas. crop_within fw fh (crop_info fa)"
    "smooth_crop_transitions fas tf fps_v = Inr out"
  shows "\<forall>s\<in>set out. sc_within fw fh s"
proof (cases "fas = []")
  case True
  with smooth_Inr [OF assms(2)] show ?thesis by simp
next
  case False
  then have "last fas \<in> set fas" by simp
  with assms(1) have "sc_within fw fh (last_crop_entry (last fas))"
    by (intro last_entry_within) blast
  with smooth_Inr [OF assms(2)] False interpolated_entries_within [OF assms(1), of fps_v]
  show ?thesis by auto
qed

lemma interpolated_entries_idx:
  "s \<in> set (interpolated_entries fps_v fas) \<Longrightarrow> \<exists>fa\<in>set fas. sc_frame_idx s < frame_idx fa"
proof (induction fps_v fas rule: interpolated_entries.induct)
  case (1 fps_v a b rest)
  then show ?case by (auto simp: interpolated_entry_def Let_def)
qed simp_all

section \<open>The driver returns a report\<close>

lemma planner_returns: "fh \<noteq> 0 \<Longrightarrow> \<exists>c. calculate_autoflip_crop fw fh sal l = Inr c"
  using calc_narrow [of fh l fw sal] calc_short [of fh l fw sal] by blast

lemma analyse_frames_total:
  assumes "fps_v \<noteq> 0" "fh \<noteq> 0"
  shows "\<exists>out' fas. analyse_frames env fw fh l fps_v si frames idx analyses out = (out', Inr fas)"
proof (induction frames arbitrary: idx analyses out)
  case Nil
  show ?case by simp
next
  case (Cons frame frames)
  obtain c where c: "calculate_autoflip_crop fw fh (detect_salient_regions env frame) l = Inr c"
    using planner_returns [OF assms(2)] by blast
  show ?case
  proof (cases "idx mod si = 0")
    case True
    with c assms(1) Cons.IH show ?thesis by (simp add: Let_def)
  next
    case False
    with Cons.IH show ?thesis by simp
  qed
qed

lemma process_total:
  assumes "video_capture env input = Some cap" "rate \<noteq> 0" "cap_fps cap \<noteq> 0"
    "py_int (cap_frame_height cap) \<noteq> 0"
  shows "\<exists>out r. process_video_autoflip env input dest l rate = (out, Inr (Report r))"
proof -
  let ?si = "max 1 (py_int (cap_frame_count cap) div rate)"
  let ?o = "[Analyzing_video (py_int (cap_frame_width cap)) (py_int (cap_frame_height cap))
              (py_int (cap_frame_count cap)) (cap_fps cap), Sampling_every ?si]"
  from analyse_frames_total [OF assms(3,4)] obtain out' fas where
    a: "analyse_frames env (py_int (cap_frame_width cap)) (py_int (cap_frame_height cap)) l
          (cap_fps cap) ?si (cap_frames cap) 0 [] ?o = (out', Inr fas)"
    by blast
  from smooth_total [OF assms(3)] obtain sm where
    s: "smooth_crop_transitions fas (py_int (cap_frame_count cap)) (cap_fps cap) = Inr sm"
    by blast
  show ?thesis
    using assms(1,2) a s by (simp add: process_video_autoflip_def Let_def)
qed

section \<open>The claims\<close>

text \<open>
  C1. For every frame of positive width and height, every salience and every label, the
  planner returns a crop with \<open>x \<ge> 0\<close>, \<open>y \<ge> 0\<close>, \<open>x + width \<le> frameWidth\<close> and
  \<open>y + height \<le> frameHeight\<close>; and when the smoother is given analyses whose crops the
  planner returned for that frame size, every entry it produces satisfies the same four
  inequalities (it produces its output whenever \<^verbatim>\<open>fps\<close> is not zero).
\<close>

theorem C1_crops_within_frame:
  assumes "0 < fw" "0 < fh"
  shows "(\<exists>c. calculate_autoflip_crop fw fh sal l = Inr c \<and> crop_within fw fh c)
       \<and> ((\<forall>fa\<in>set fas. calculate_autoflip_crop fw fh (salient_regions fa) l = Inr (crop_info fa)) \<longrightarrow>
            (fps_v \<noteq> 0 \<longrightarrow> (\<exists>out. smooth_crop_transitions fas tf fps_v = Inr out))
            \<and> (\<forall>out. smooth_crop_transitions fas tf fps_v = Inr out \<longrightarrow>
                  (\<forall>s\<in>set out. sc_within fw fh s)))"
proof (intro conjI impI allI)
  show "\<exists>c. calculate_autoflip_crop fw fh sal l = Inr c \<and> crop_within fw fh c"
    by (rule planner_within [OF assms])
next
  assume "fps_v \<noteq> 0"
  then show "\<exists>out. smooth_crop_transitions fas tf fps_v = Inr out"
    by (simp add: smooth_total)
next
  fix out
  assume planned: "\<forall>fa\<in>set fas. calculate_autoflip_crop fw fh (salient_regions fa) l = Inr (crop_info fa)"
    and out: "smooth_crop_transitions fas tf fps_v = Inr out"
  have "\<forall>fa\<in>set fas. crop_within fw fh (crop_info fa)"
  proof
    fix fa assume "fa \<in> set fas"
    with planned have "calculate_autoflip_crop fw fh (salient_regions fa) l = Inr (crop_info fa)"
      by blast
    with planner_within [OF assms, of "salient_regions fa" l]
    show "crop_within fw fh (crop_info fa)" by simp
  qed
  then show "\<forall>s\<in>set out. sc_within fw fh s" by (rule smooth_within [OF _ out])
qed

theorem C1_within_frame_witness:
  "(0::int) < 1920 \<and> (0::int) < 1080
   \<and> (\<exists>c. calculate_autoflip_crop 1920 1080 left_face ''9:16'' = Inr c \<and> crop_within 1920 1080 c)
   \<and> (\<exists>out. smooth_crop_transitions [sample_a 0, sample_b 2] 3 30 = Inr out
         \<and> length out = 3 \<and> (\<forall>s\<in>set out. sc_within 1920 1080 s))"
proof -
  have a: "calculate_autoflip_crop 1920 1080 (salient_regions (sample_a 0)) ''9:16'' = Inr (crop_info (sample_a 0))"
    by code_simp
  have b: "calculate_autoflip_crop 1920 1080 (salient_regions (sample_b 2)) ''9:16'' = Inr (crop_info (sample_b 2))"
    by code_simp
  have len: "map_sum id length (smooth_crop_transitions [sample_a 0, sample_b 2] 3 30) = Inr 3"
    by code_simp
  from C1_crops_within_frame [of 1920 1080 left_face "''9:16''" "[sample_a 0, sample_b 2]" 30 3] a b
  have p: "\<exists>c. calculate_autoflip_crop 1920 1080 left_face ''9:16'' = Inr c \<and> crop_within 1920 1080 c"
    and q: "\<exists>out. smooth_crop_transitions [sample_a 0, sample_b 2] 3 30 = Inr out"
    and r: "\<forall>out. smooth_crop_transitions [sample_a 0, sample_b 2] 3 30 = Inr out \<longrightarrow>
                  (\<forall>s\<in>set out. sc_within 1920 1080 s)"
    by simp_all
  from q obtain out where out: "smooth_crop_transitions [sample_a 0, sample_b 2] 3 30 = Inr out" ..
  with len have "length out = 3" by simp
  with out r p show ?thesis by auto
qed

text \<open>
  C2, as the code has it. For a 1920 by 1080 frame with a single face region whose
  normalised box is \<open>(0.4, 0.4, 0.2, 0.2)\<close> and the label \<^verbatim>\<open>9:16\<close>, the planner returns
  \<open>x = 656\<close>, \<open>y = 0\<close>, \<open>width = 607\<close>, \<open>height = 1080\<close> with the method
  \<^verbatim>\<open>autoflip_salient\<close>: the crop width is \<^verbatim>\<open>int(1080 * 0.5625)\<close>, the truncation of
  \<open>607.5\<close>, not its rounding.
\<close>

theorem C2_planner_scenario:
  "calculate_autoflip_crop 1920 1080 (single_face cf pb) ''9:16'' =
     Inr \<lparr>crop_x = 656, crop_y = 0, crop_width = 607, crop_height = 1080,
          crop_confidence = cf, crop_method = autoflip_salient,
          center_x = Some (1 / 2), center_y = Some (1 / 2),
          salient_bbox = Some (2 / 5, 2 / 5, 1 / 5, 1 / 5)\<rparr>"
  by (simp add: calculate_autoflip_crop_def single_face_def aggregate_regions_def
      target_ratio_of_def py_int_def Let_def floor_numeral_div)

text \<open>The width the claim states, 608, is not the width the planner returns.\<close>

theorem C2_width_608_counterexample:
  "map_sum id crop_width
     (calculate_autoflip_crop 1920 1080 (single_face (9 / 10) (768, 432, 384, 216)) ''9:16'')
   = Inr 607
   \<and> map_sum id crop_width
     (calculate_autoflip_crop 1920 1080 (single_face (9 / 10) (768, 432, 384, 216)) ''9:16'')
   \<noteq> Inr 608"
  by (simp add: calculate_autoflip_crop_def single_face_def aggregate_regions_def
      target_ratio_of_def py_int_def Let_def floor_numeral_div)

text \<open>
  C3, as the code has it. Given exactly two analyses with equal frame indices, the smoother
  raises no exception, for any \<^verbatim>\<open>fps\<close>, and returns exactly one entry: the crop of the
  second analysis, with its frame index, time stamp and method. No interpolated entry is
  produced, since \<^verbatim>\<open>range(0)\<close> is empty.
\<close>

theorem C3_duplicate_index_keeps_last:
  assumes "frame_idx a = frame_idx b"
  shows "smooth_crop_transitions [a, b] tf fps_v = Inr [last_crop_entry b]
       \<and> sc_fields (last_crop_entry b) = crop_fields (crop_info b)
       \<and> sc_frame_idx (last_crop_entry b) = frame_idx b
       \<and> sc_timestamp (last_crop_entry b) = timestamp b"
  using assms
  by (simp add: smooth_crop_transitions_def Let_def last_crop_entry_def sc_fields_def
      crop_fields_def)

theorem C3_duplicate_index_witness:
  "frame_idx (sample_a 5) = frame_idx (sample_b 5)
   \<and> smooth_crop_transitions [sample_a 5, sample_b 5] 10 30 = Inr [last_crop_entry (sample_b 5)]
   \<and> sc_fields (last_crop_entry (sample_b 5)) = (0, 0, 607, 1080, 9 / 10, autoflip_salient)"
proof -
  have e: "frame_idx (sample_a 5) = frame_idx (sample_b 5)"
    by (simp add: sample_a_def sample_b_def)
  have f: "crop_fields (crop_info (sample_b 5)) = (0, 0, 607, 1080, 9 / 10, autoflip_salient)"
    by (simp add: sample_b_def crop_fields_def)
  from C3_duplicate_index_keeps_last [OF e, of 10 30] e f show ?thesis by simp
qed

text \<open>
  With two different crops at the same frame index the single entry is the second crop,
  not the first.
\<close>

theorem C3_first_crop_counterexample:
  "map_sum id (map sc_fields) (smooth_crop_transitions [sample_a 5, sample_b 5] 10 30)
     = Inr [crop_fields (crop_info (sample_b 5))]
   \<and> map_sum id (map sc_fields) (smooth_crop_transitions [sample_a 5, sample_b 5] 10 30)
     \<noteq> Inr [crop_fields (crop_info (sample_a 5))]"
  by code_simp

text \<open>
  C4, as the code has it. For every frame of positive width and height, every salience
  and every label, the planner returns a crop, and if its width and height are positive
  then \<open>\<bar>width / height - targetRatio\<bar> \<le> max(1, targetRatio) / min(width, height)\<close>;
  for every label other than \<^verbatim>\<open>16:9\<close> the bound \<open>1 / min(width, height)\<close> holds.
\<close>

theorem C4_ratio_within_rounding:
  assumes "0 < fw" "0 < fh"
  shows "\<exists>c. calculate_autoflip_crop fw fh sal l = Inr c
     \<and> (0 < crop_width c \<and> 0 < crop_height c \<longrightarrow>
          ratio_error c l \<le> max 1 (target_ratio_of l) * rounding_bound c
          \<and> (l \<noteq> ''16:9'' \<longrightarrow> ratio_error c l \<le> rounding_bound c))"
proof (cases "target_ratio_of l < of_int fw / of_int fh")
  case True
  from calc_narrow [of fh l fw sal] assms True obtain c where
    c: "calculate_autoflip_crop fw fh sal l = Inr c" "crop_height c = fh"
       "crop_width c = py_int (of_int fh * target_ratio_of l)"
    by auto
  have b: "ratio_error c l \<le> rounding_bound c" if "0 < crop_width c"
    by (rule bound_narrow [OF assms(2) c(2) c(3) that])
  have rb: "0 \<le> rounding_bound c" if "0 < crop_width c"
    using that assms(2) c(2) by (simp add: rounding_bound_def)
  have "rounding_bound c \<le> max 1 (target_ratio_of l) * rounding_bound c" if "0 < crop_width c"
    using rb [OF that] by (simp add: mult_le_cancel_right1)
  with b c(1) show ?thesis by (intro exI [of _ c]) auto
next
  case False
  from calc_short [of fh l fw sal] assms False obtain c where
    c: "calculate_autoflip_crop fw fh sal l = Inr c" "crop_width c = fw"
       "crop_height c = py_int (of_int fw / target_ratio_of l)"
    by auto
  from bound_short [OF assms(1) c(2) c(3)] c(1) show ?thesis by (intro exI [of _ c]) auto
qed

theorem C4_ratio_witness:
  "(0::int) < 540 \<and> (0::int) < 960
   \<and> (\<exists>c. calculate_autoflip_crop 540 960 no_regions ''16:9'' = Inr c
         \<and> crop_width c = 540 \<and> crop_height c = 303
         \<and> ratio_error c ''16:9'' \<le> max 1 (target_ratio_of ''16:9'') * rounding_bound c)"
proof -
  have e: "calculate_autoflip_crop 540 960 no_regions ''16:9'' =
       Inr \<lparr>crop_x = 0, crop_y = 328, crop_width = 540, crop_height = 303,
            crop_confidence = 1 / 10, crop_method = center_crop_fallback,
            center_x = None, center_y = None, salient_bbox = None\<rparr>"
    by (simp add: calculate_autoflip_crop_def no_regions_def target_ratio_of_def py_int_def
        Let_def floor_numeral_div)
  from C4_ratio_within_rounding [of 540 960 no_regions "''16:9''"] e show ?thesis by auto
qed

text \<open>
  The bound \<open>1 / min(width, height)\<close> fails for the label \<^verbatim>\<open>16:9\<close> on a 540 by 960 frame:
  the crop is 540 by 303, and \<open>540 / 303 - 16 / 9 = 4 / 909\<close> exceeds \<open>1 / 303\<close>.
\<close>

theorem C4_bound_counterexample:
  "map_sum id (meets_rounding_bound ''16:9'')
     (calculate_autoflip_crop 540 960 no_regions ''16:9'') = Inr False"
  by (simp add: calculate_autoflip_crop_def no_regions_def target_ratio_of_def py_int_def Let_def
      meets_rounding_bound_def ratio_error_def rounding_bound_def floor_numeral_div)

text \<open>
  C5. When \<^verbatim>\<open>overall_bbox\<close> is absent, the crop the planner returns is centred, has the
  method \<^verbatim>\<open>center_crop_fallback\<close> and the confidence \<open>0.1\<close>, and it returns one for every
  frame of non-zero height; for a 100 by 100 frame and the label \<^verbatim>\<open>1:1\<close> it is exactly
  \<open>x = 0\<close>, \<open>y = 0\<close>, \<open>width = 100\<close>, \<open>height = 100\<close>.
\<close>

theorem C5_fallback_without_regions:
  assumes "overall_bbox sal = None"
  shows "(fh \<noteq> 0 \<longrightarrow>
           (\<exists>c. calculate_autoflip_crop fw fh sal l = Inr c
              \<and> crop_method c = center_crop_fallback \<and> crop_confidence c = 1 / 10
              \<and> crop_x c = (fw - crop_width c) div 2
              \<and> crop_y c = (fh - crop_height c) div 2))
       \<and> calculate_autoflip_crop 100 100 sal ''1:1'' =
           Inr \<lparr>crop_x = 0, crop_y = 0, crop_width = 100, crop_height = 100,
                crop_confidence = 1 / 10, crop_method = center_crop_fallback,
                center_x = None, center_y = None, salient_bbox = None\<rparr>"
proof (intro conjI impI)
  assume fh: "fh \<noteq> 0"
  show "\<exists>c. calculate_autoflip_crop fw fh sal l = Inr c
              \<and> crop_method c = center_crop_fallback \<and> crop_confidence c = 1 / 10
              \<and> crop_x c = (fw - crop_width c) div 2
              \<and> crop_y c = (fh - crop_height c) div 2"
  proof (cases "target_ratio_of l < of_int fw / of_int fh")
    case True
    from calc_narrow [OF fh True, of sal] show ?thesis using assms by auto
  next
    case False
    from calc_short [OF fh False, of sal] show ?thesis using assms by auto
  qed
next
  show "calculate_autoflip_crop 100 100 sal ''1:1'' =
           Inr \<lparr>crop_x = 0, crop_y = 0, crop_width = 100, crop_height = 100,
                crop_confidence = 1 / 10, crop_method = center_crop_fallback,
                center_x = None, center_y = None, salient_bbox = None\<rparr>"
    using assms
    by (simp add: calculate_autoflip_crop_def target_ratio_of_def py_int_def Let_def)
qed

theorem C5_fallback_witness:
  "overall_bbox no_regions = None
   \<and> calculate_autoflip_crop 1920 1080 no_regions ''9:16'' =
       Inr \<lparr>crop_x = 656, crop_y = 0, crop_width = 607, crop_height = 1080,
            crop_confidence = 1 / 10, crop_method = center_crop_fallback,
            center_x = None, center_y = None, salient_bbox = None\<rparr>
   \<and> calculate_autoflip_crop 100 100 no_regions ''1:1'' =
       Inr \<lparr>crop_x = 0, crop_y = 0, crop_width = 100, crop_height = 100,
            crop_confidence = 1 / 10, crop_method = center_crop_fallback,
            center_x = None, center_y = None, salient_bbox = None\<rparr>"
proof -
  have n: "overall_bbox no_regions = None" by (simp add: no_regions_def)
  have e: "calculate_autoflip_crop 1920 1080 no_regions ''9:16'' =
       Inr \<lparr>crop_x = 656, crop_y = 0, crop_width = 607, crop_height = 1080,
            crop_confidence = 1 / 10, crop_method = center_crop_fallback,
            center_x = None, center_y = None, salient_bbox = None\<rparr>"
    by (simp add: calculate_autoflip_crop_def no_regions_def target_ratio_of_def py_int_def
        Let_def floor_numeral_div)
  from C5_fallback_without_regions [OF n, of 1080 1920 "''9:16''"] n e show ?thesis by simp
qed

text \<open>
  C6. Given no analysis the smoother returns the empty list; given exactly one it returns
  that crop unchanged; and for every non-empty list of analyses with non-decreasing frame
  indices, the output has \<open>last - first + 1\<close> entries, where \<open>first\<close> and \<open>last\<close> are the
  first and the last sampled frame index (there is an output whenever \<^verbatim>\<open>fps\<close> is not zero).
\<close>

theorem C6_output_length:
  "smooth_crop_transitions [] tf fps_v = Inr []
   \<and> smooth_crop_transitions [a] tf fps_v = Inr [last_crop_entry a]
   \<and> sc_fields (last_crop_entry a) = crop_fields (crop_info a)
   \<and> (fas \<noteq> [] \<and> sorted (map frame_idx fas) \<longrightarrow>
        (fps_v \<noteq> 0 \<longrightarrow> (\<exists>out. smooth_crop_transitions fas tf fps_v = Inr out))
        \<and> (\<forall>out. smooth_crop_transitions fas tf fps_v = Inr out \<longrightarrow>
              int (length out) = frame_idx (last fas) - frame_idx (hd fas) + 1))"
proof (intro conjI impI allI)
  show "smooth_crop_transitions [] tf fps_v = Inr []"
    by (simp add: smooth_crop_transitions_def)
  show "smooth_crop_transitions [a] tf fps_v = Inr [last_crop_entry a]"
    by (simp add: smooth_crop_transitions_def)
  show "sc_fields (last_crop_entry a) = crop_fields (crop_info a)"
    by (simp add: last_crop_entry_def sc_fields_def crop_fields_def Let_def)
next
  assume "fps_v \<noteq> 0"
  then show "\<exists>out. smooth_crop_transitions fas tf fps_v = Inr out"
    by (simp add: smooth_total)
next
  fix out
  assume fas: "fas \<noteq> [] \<and> sorted (map frame_idx fas)"
    and out: "smooth_crop_transitions fas tf fps_v = Inr out"
  from smooth_Inr [OF out] fas
  have "out = interpolated_entries fps_v fas @ [last_crop_entry (last fas)]" by simp
  with length_interpolated_entries [of fas fps_v] fas
  show "int (length out) = frame_idx (last fas) - frame_idx (hd fas) + 1" by simp
qed

theorem C6_output_length_witness:
  "[sample_a 0, sample_b 2, sample_a 5] \<noteq> []
   \<and> sorted (map frame_idx [sample_a 0, sample_b 2, sample_a 5])
   \<and> (\<exists>out. smooth_crop_transitions [sample_a 0, sample_b 2, sample_a 5] 6 30 = Inr out
         \<and> int (length out) = 5 - 0 + 1)"
proof -
  have s: "sorted (map frame_idx [sample_a 0, sample_b 2, sample_a 5])"
    by (simp add: sample_a_def sample_b_def)
  have h: "frame_idx (hd [sample_a 0, sample_b 2, sample_a 5]) = 0"
    "frame_idx (last [sample_a 0, sample_b 2, sample_a 5]) = 5"
    by (simp_all add: sample_a_def)
  from C6_output_length [of 6 30 "sample_a 0" "[sample_a 0, sample_b 2, sample_a 5]"] s
  have q: "\<exists>out. smooth_crop_transitions [sample_a 0, sample_b 2, sample_a 5] 6 30 = Inr out"
    and r: "\<forall>out. smooth_crop_transitions [sample_a 0, sample_b 2, sample_a 5] 6 30 = Inr out \<longrightarrow>
              int (length out) = frame_idx (last [sample_a 0, sample_b 2, sample_a 5])
                - frame_idx (hd [sample_a 0, sample_b 2, sample_a 5]) + 1"
    by simp_all
  from q obtain out where "smooth_crop_transitions [sample_a 0, sample_b 2, sample_a 5] 6 30 = Inr out" ..
  with r h s show ?thesis by auto
qed

text \<open>
  C7. For two analyses \<open>a\<close> at frame 0 and \<open>b\<close> at frame 10, the output of the smoother has
  11 entries; the first has the rectangle and the confidence of the crop of \<open>a\<close> and the
  method \<^verbatim>\<open>interpolated\<close>; the entry at offset 10 has the rectangle, the confidence and
  the method of the crop of \<open>b\<close> (there is an output whenever \<^verbatim>\<open>fps\<close> is not zero).
\<close>

theorem C7_interpolation_endpoints:
  assumes "frame_idx a = 0" "frame_idx b = 10"
  shows "(fps_v \<noteq> 0 \<longrightarrow> (\<exists>out. smooth_crop_transitions [a, b] tf fps_v = Inr out))
       \<and> (\<forall>out. smooth_crop_transitions [a, b] tf fps_v = Inr out \<longrightarrow>
             length out = 11
             \<and> sc_fields (out ! 0) =
                 (crop_x (crop_info a), crop_y (crop_info a), crop_width (crop_info a),
                  crop_height (crop_info a), crop_confidence (crop_info a), interpolated)
             \<and> sc_fields (out ! 10) = crop_fields (crop_info b)
             \<and> sc_frame_idx (out ! 0) = 0 \<and> sc_frame_idx (out ! 10) = 10)"
proof (intro conjI impI allI)
  assume "fps_v \<noteq> 0"
  then show "\<exists>out. smooth_crop_transitions [a, b] tf fps_v = Inr out"
    by (simp add: smooth_total)
next
  fix out
  assume "smooth_crop_transitions [a, b] tf fps_v = Inr out"
  from smooth_Inr [OF this] assms
  have out: "out = map (interpolated_entry a b fps_v) [0..9] @ [last_crop_entry b]" by simp
  have len: "length (map (interpolated_entry a b fps_v) [0..9]) = 10" by simp
  have first: "out ! 0 = interpolated_entry a b fps_v 0"
    unfolding out by (simp add: nth_append)
  have lst: "out ! 10 = last_crop_entry b"
    unfolding out using len by (simp add: nth_append)
  show "length out = 11" unfolding out by simp
  show "sc_fields (out ! 0) =
                 (crop_x (crop_info a), crop_y (crop_info a), crop_width (crop_info a),
                  crop_height (crop_info a), crop_confidence (crop_info a), interpolated)"
    unfolding first using assms
    by (simp add: interpolated_entry_def sc_fields_def Let_def py_int_of_int)
  show "sc_fields (out ! 10) = crop_fields (crop_info b)"
    unfolding lst by (simp add: last_crop_entry_def sc_fields_def crop_fields_def Let_def)
  show "sc_frame_idx (out ! 0) = 0"
    unfolding first using assms by (simp add: interpolated_entry_def Let_def)
  show "sc_frame_idx (out ! 10) = 10"
    unfolding lst using assms by (simp add: last_crop_entry_def Let_def)
qed

theorem C7_endpoints_witness:
  "frame_idx (sample_a 0) = 0 \<and> frame_idx (sample_b 10) = 10
   \<and> (\<exists>out. smooth_crop_transitions [sample_a 0, sample_b 10] 11 30 = Inr out
         \<and> length out = 11
         \<and> sc_fields (out ! 0) = (656, 0, 607, 1080, 1 / 10, interpolated)
         \<and> sc_fields (out ! 10) = (0, 0, 607, 1080, 9 / 10, autoflip_salient))"
proof -
  have i: "frame_idx (sample_a 0) = 0" "frame_idx (sample_b 10) = 10"
    by (simp_all add: sample_a_def sample_b_def)
  have f: "crop_fields (crop_info (sample_b 10)) = (0, 0, 607, 1080, 9 / 10, autoflip_salient)"
    "crop_info (sample_a 0) = \<lparr>crop_x = 656, crop_y = 0, crop_width = 607, crop_height = 1080,
        crop_confidence = 1 / 10, crop_method = center_crop_fallback,
        center_x = None, center_y = None, salient_bbox = None\<rparr>"
    by (simp_all add: sample_a_def sample_b_def crop_fields_def)
  from C7_interpolation_endpoints [OF i, of 30 11]
  have q: "\<exists>out. smooth_crop_transitions [sample_a 0, sample_b 10] 11 30 = Inr out"
    and r: "\<forall>out. smooth_crop_transitions [sample_a 0, sample_b 10] 11 30 = Inr out \<longrightarrow>
             length out = 11
             \<and> sc_fields (out ! 0) =
                 (crop_x (crop_info (sample_a 0)), crop_y (crop_info (sample_a 0)),
                  crop_width (crop_info (sample_a 0)), crop_height (crop_info (sample_a 0)),
                  crop_confidence (crop_info (sample_a 0)), interpolated)
             \<and> sc_fields (out ! 10) = crop_fields (crop_info (sample_b 10))
             \<and> sc_frame_idx (out ! 0) = 0 \<and> sc_frame_idx (out ! 10) = 10"
    by simp_all
  from q obtain out where "smooth_crop_transitions [sample_a 0, sample_b 10] 11 30 = Inr out" ..
  with r i f show ?thesis by auto
qed

text \<open>
  C8, as the code has it. If the input path does not exist, or it exists and the video
  cannot be opened, the program exits with code 1, prints the error message on standard
  output (\<^verbatim>\<open>print\<close> without a \<^verbatim>\<open>file\<close> argument), leaves standard error empty and
  writes no output file. The exit code is 0 or 1, and it is 0 whenever the output file is
  written. When the path exists, the video opens, and the sample rate, the frame rate and
  the frame height are not zero, the run writes the report to the output path and exits
  with code 0.
\<close>

theorem C8_exit_codes:
  "(\<not> path_exists env input \<longrightarrow>
      main env input dest l rate =
        \<lparr>exit_code = 1, stdout = [Error_input_not_found input], stderr = [], written = None\<rparr>)
   \<and> (path_exists env input \<and> video_capture env input = None \<longrightarrow>
      main env input dest l rate =
        \<lparr>exit_code = 1, stdout = [Starting, Error_line ''Could not open video file''],
         stderr = [], written = None\<rparr>)
   \<and> (written (main env input dest l rate) \<noteq> None \<longrightarrow>
        exit_code (main env input dest l rate) = 0)
   \<and> (exit_code (main env input dest l rate) = 0 \<or> exit_code (main env input dest l rate) = 1)
   \<and> (path_exists env input \<and> video_capture env input = Some cap \<and> rate \<noteq> 0
        \<and> cap_fps cap \<noteq> 0 \<and> py_int (cap_frame_height cap) \<noteq> 0 \<longrightarrow>
        exit_code (main env input dest l rate) = 0
        \<and> stderr (main env input dest l rate) = []
        \<and> (\<exists>r. written (main env input dest l rate) = Some (dest, r)))"
proof (intro conjI impI)
  assume "\<not> path_exists env input"
  then show "main env input dest l rate =
        \<lparr>exit_code = 1, stdout = [Error_input_not_found input], stderr = [], written = None\<rparr>"
    by (simp add: main_def)
next
  assume "path_exists env input \<and> video_capture env input = None"
  then show "main env input dest l rate =
        \<lparr>exit_code = 1, stdout = [Starting, Error_line ''Could not open video file''],
         stderr = [], written = None\<rparr>"
    by (simp add: main_def process_video_autoflip_def)
next
  assume "written (main env input dest l rate) \<noteq> None"
  then show "exit_code (main env input dest l rate) = 0"
    by (auto simp: main_def split: if_splits prod.splits sum.splits result.splits)
next
  show "exit_code (main env input dest l rate) = 0 \<or> exit_code (main env input dest l rate) = 1"
    by (auto simp: main_def split: if_splits prod.splits sum.splits result.splits)
next
  assume a: "path_exists env input \<and> video_capture env input = Some cap \<and> rate \<noteq> 0
        \<and> cap_fps cap \<noteq> 0 \<and> py_int (cap_frame_height cap) \<noteq> 0"
  then obtain out r where "process_video_autoflip env input dest l rate = (out, Inr (Report r))"
    using process_total [of env input cap rate dest l] by blast
  with a show "exit_code (main env input dest l rate) = 0"
    "stderr (main env input dest l rate) = []"
    "\<exists>r. written (main env input dest l rate) = Some (dest, r)"
    by (simp_all add: main_def)
qed

theorem C8_exit_codes_witness:
  "\<not> path_exists (closed_world False) ''in.mp4''
   \<and> main (closed_world False) ''in.mp4'' ''out.json'' ''9:16'' 30 =
        \<lparr>exit_code = 1, stdout = [Error_input_not_found ''in.mp4''], stderr = [], written = None\<rparr>
   \<and> path_exists (closed_world True) ''in.mp4''
   \<and> video_capture (closed_world True) ''in.mp4'' = None
   \<and> main (closed_world True) ''in.mp4'' ''out.json'' ''9:16'' 30 =
        \<lparr>exit_code = 1, stdout = [Starting, Error_line ''Could not open video file''],
         stderr = [], written = None\<rparr>
   \<and> path_exists tiny_world ''in.mp4''
   \<and> exit_code (main tiny_world ''in.mp4'' ''out.json'' ''9:16'' 30) = 0
   \<and> (\<exists>r. written (main tiny_world ''in.mp4'' ''out.json'' ''9:16'' 30) = Some (''out.json'', r))"
proof -
  have c: "\<not> path_exists (closed_world False) ''in.mp4''"
    "path_exists (closed_world True) ''in.mp4''"
    "video_capture (closed_world True) ''in.mp4'' = None"
    by (simp_all add: closed_world_def)
  have t: "path_exists tiny_world ''in.mp4''"
    "video_capture tiny_world ''in.mp4'' = Some \<lparr>cap_fps = 30, cap_frame_count = 3,
       cap_frame_width = 1920, cap_frame_height = 1080, cap_frames = [0, 1, 2]\<rparr>"
    by (simp_all add: tiny_world_def)
  have n: "py_int 1080 \<noteq> 0" by (simp add: py_int_def)
  from C8_exit_codes [of "closed_world False" "''in.mp4''" "''out.json''" "''9:16''" 30] c(1)
  have 1: "main (closed_world False) ''in.mp4'' ''out.json'' ''9:16'' 30 =
        \<lparr>exit_code = 1, stdout = [Error_input_not_found ''in.mp4''], stderr = [], written = None\<rparr>"
    by blast
  from C8_exit_codes [of "closed_world True" "''in.mp4''" "''out.json''" "''9:16''" 30] c(2,3)
  have 2: "main (closed_world True) ''in.mp4'' ''out.json'' ''9:16'' 30 =
        \<lparr>exit_code = 1, stdout = [Starting, Error_line ''Could not open video file''],
         stderr = [], written = None\<rparr>"
    by blast
  from C8_exit_codes [of tiny_world "''in.mp4''" "''out.json''" "''9:16''" 30
      "\<lparr>cap_fps = 30, cap_frame_count = 3, cap_frame_width = 1920, cap_frame_height = 1080,
        cap_frames = [0, 1, 2]\<rparr>"] t n
  have 3: "exit_code (main tiny_world ''in.mp4'' ''out.json'' ''9:16'' 30) = 0
     \<and> (\<exists>r. written (main tiny_world ''in.mp4'' ''out.json'' ''9:16'' 30) = Some (''out.json'', r))"
    by simp
  from c t(1) 1 2 3 show ?thesis by simp
qed

text \<open>
  In both error cases the message is on standard output and standard error is empty.
\<close>

theorem C8_stderr_counterexample:
  "stderr (main (closed_world False) ''in.mp4'' ''out.json'' ''9:16'' 30) = []
   \<and> stdout (main (closed_world False) ''in.mp4'' ''out.json'' ''9:16'' 30)
       = [Error_input_not_found ''in.mp4'']
   \<and> stderr (main (closed_world True) ''in.mp4'' ''out.json'' ''9:16'' 30) = []
   \<and> stdout (main (closed_world True) ''in.mp4'' ''out.json'' ''9:16'' 30)
       = [Starting, Error_line ''Could not open video file'']"
  by (simp add: main_def closed_world_def process_video_autoflip_def)

text \<open>
  C9. For a label outside \<^verbatim>\<open>9:16\<close>, \<^verbatim>\<open>16:9\<close>, \<^verbatim>\<open>1:1\<close>, \<^verbatim>\<open>4:3\<close> the planner returns
  what it returns for \<^verbatim>\<open>9:16\<close>, and that is a crop for every frame of non-zero height:
  the label adds no failure.
\<close>

theorem C9_unknown_label_is_portrait:
  assumes "l \<notin> {''9:16'', ''16:9'', ''1:1'', ''4:3''}"
  shows "calculate_autoflip_crop fw fh sal l = calculate_autoflip_crop fw fh sal ''9:16''
       \<and> (fh \<noteq> 0 \<longrightarrow> (\<exists>c. calculate_autoflip_crop fw fh sal l = Inr c))"
proof -
  have "target_ratio_of l = target_ratio_of ''9:16''"
    using assms by (simp add: target_ratio_of_def)
  then have "calculate_autoflip_crop fw fh sal l = calculate_autoflip_crop fw fh sal ''9:16''"
    by (simp add: calculate_autoflip_crop_def)
  moreover have "\<exists>c. calculate_autoflip_crop fw fh sal l = Inr c" if "fh \<noteq> 0"
    using calc_narrow [OF that, of l fw sal] calc_short [OF that, of l fw sal] by blast
  ultimately show ?thesis by simp
qed

theorem C9_unknown_label_witness:
  "''3:2'' \<notin> {''9:16'', ''16:9'', ''1:1'', ''4:3''}
   \<and> calculate_autoflip_crop 1920 1080 no_regions ''3:2'' =
       Inr \<lparr>crop_x = 656, crop_y = 0, crop_width = 607, crop_height = 1080,
            crop_confidence = 1 / 10, crop_method = center_crop_fallback,
            center_x = None, center_y = None, salient_bbox = None\<rparr>"
proof -
  have n: "''3:2'' \<notin> {''9:16'', ''16:9'', ''1:1'', ''4:3''}" by simp
  have e: "calculate_autoflip_crop 1920 1080 no_regions ''9:16'' =
       Inr \<lparr>crop_x = 656, crop_y = 0, crop_width = 607, crop_height = 1080,
            crop_confidence = 1 / 10, crop_method = center_crop_fallback,
            center_x = None, center_y = None, salient_bbox = None\<rparr>"
    by (simp add: calculate_autoflip_crop_def no_regions_def target_ratio_of_def py_int_def
        Let_def floor_numeral_div)
  from C9_unknown_label_is_portrait [OF n, of 1920 1080 no_regions]
  have "calculate_autoflip_crop 1920 1080 no_regions ''3:2''
      = calculate_autoflip_crop 1920 1080 no_regions ''9:16''" by blast
  with n e show ?thesis by simp
qed

text \<open>
  C10. The output of the smoother is the same for any two values of the argument
  \<^verbatim>\<open>total_frames\<close>, for every list of analyses and every \<^verbatim>\<open>fps\<close>; and every entry it
  produces has a frame index that is at most a sampled frame index, at most the last one
  when the sampled indices are non-decreasing.
\<close>

theorem C10_total_frames_unused:
  "smooth_crop_transitions fas t1 fps_v = smooth_crop_transitions fas t2 fps_v
   \<and> (\<forall>out. smooth_crop_transitions fas t1 fps_v = Inr out \<longrightarrow>
         (\<forall>s\<in>set out. \<exists>fa\<in>set fas. sc_frame_idx s \<le> frame_idx fa)
         \<and> (sorted (map frame_idx fas) \<longrightarrow>
              (\<forall>s\<in>set out. sc_frame_idx s \<le> frame_idx (last fas))))"
proof (intro conjI impI allI)
  show "smooth_crop_transitions fas t1 fps_v = smooth_crop_transitions fas t2 fps_v"
    by (simp add: smooth_crop_transitions_def)
next
  fix out
  assume out: "smooth_crop_transitions fas t1 fps_v = Inr out"
  show some: "\<forall>s\<in>set out. \<exists>fa\<in>set fas. sc_frame_idx s \<le> frame_idx fa"
  proof
    fix s assume s: "s \<in> set out"
    show "\<exists>fa\<in>set fas. sc_frame_idx s \<le> frame_idx fa"
    proof (cases "fas = []")
      case True
      with smooth_Inr [OF out] s show ?thesis by simp
    next
      case False
      with smooth_Inr [OF out] s
      consider "s \<in> set (interpolated_entries fps_v fas)" | "s = last_crop_entry (last fas)"
        by auto
      then show ?thesis
      proof cases
        case 1
        from interpolated_entries_idx [OF 1] show ?thesis by force
      next
        case 2
        with False show ?thesis
          by (intro bexI [of _ "last fas"]) (simp_all add: last_crop_entry_def Let_def)
      qed
    qed
  qed
  assume sorted: "sorted (map frame_idx fas)"
  show "\<forall>s\<in>set out. sc_frame_idx s \<le> frame_idx (last fas)"
  proof
    fix s assume "s \<in> set out"
    with some obtain fa where fa: "fa \<in> set fas" "sc_frame_idx s \<le> frame_idx fa" by blast
    then have ne: "fas \<noteq> []" by auto
    from fa(1) have "frame_idx fa \<in> set (map frame_idx fas)" by simp
    from sorted_le_last [OF sorted this] ne have "frame_idx fa \<le> frame_idx (last fas)"
      by (simp add: last_map)
    with fa(2) show "sc_frame_idx s \<le> frame_idx (last fas)" by simp
  qed
qed

theorem C10_total_frames_witness:
  "sorted (map frame_idx [sample_a 0, sample_b 2])
   \<and> smooth_crop_transitions [sample_a 0, sample_b 2] 3 30
       = smooth_crop_transitions [sample_a 0, sample_b 2] 1000 30
   \<and> map_sum id (map sc_frame_idx) (smooth_crop_transitions [sample_a 0, sample_b 2] 1000 30)
       = Inr [0, 1, 2]"
proof -
  have s: "sorted (map frame_idx [sample_a 0, sample_b 2])"
    by (simp add: sample_a_def sample_b_def)
  have e: "map_sum id (map sc_frame_idx) (smooth_crop_transitions [sample_a 0, sample_b 2] 3 30)
       = Inr [0, 1, 2]"
    by code_simp
  from C10_total_frames_unused [of "[sample_a 0, sample_b 2]" 3 30 1000]
  have "smooth_crop_transitions [sample_a 0, sample_b 2] 3 30
       = smooth_crop_transitions [sample_a 0, sample_b 2] 1000 30" by blast
  with s e show ?thesis by simp
qed

end
